theory Spec2Isabelle
  imports Main
begin

section \<open>Python strings\<close>

text \<open>
  A Python \<^verbatim>\<open>str\<close> is a sequence of Unicode code points; \<^verbatim>\<open>len\<close>, slicing and the
  length bounds of the schema all count code points. A string is therefore a list of
  code points, and a literal of the source is written \<open>str ''...''\<close>.
\<close>

type_synonym pystr = "nat list"

definition str :: "string \<Rightarrow> pystr" where
  "str s = map of_char s"

definition NL :: pystr where
  "NL = [10]"

text \<open>\<^verbatim>\<open>sep.join(xs)\<close>\<close>

fun join :: "pystr \<Rightarrow> pystr list \<Rightarrow> pystr" where
  "join sep [] = []"
| "join sep [x] = x"
| "join sep (x # y # ys) = x @ sep @ join sep (y # ys)"

text \<open>\<^verbatim>\<open>s.split(sep)\<close> for a separator of one character: the pieces between the
  separators, so never an empty list.\<close>

fun split :: "nat \<Rightarrow> pystr \<Rightarrow> pystr list" where
  "split sep [] = [[]]"
| "split sep (c # cs) =
     (if c = sep then [] # split sep cs
      else (case split sep cs of [] \<Rightarrow> [[c]] | p # ps \<Rightarrow> (c # p) # ps))"

text \<open>\<^verbatim>\<open>s.startswith(p)\<close>\<close>

definition startswith :: "pystr \<Rightarrow> pystr \<Rightarrow> bool" where
  "startswith s p = (take (length p) s = p)"

text \<open>\<^verbatim>\<open>c.isspace()\<close>: the code points CPython treats as whitespace.\<close>

definition isspace :: "nat \<Rightarrow> bool" where
  "isspace c =
     ((0x09 \<le> c \<and> c \<le> 0x0D) \<or> (0x1C \<le> c \<and> c \<le> 0x20) \<or> c = 0x85 \<or> c = 0xA0
      \<or> c = 0x1680 \<or> (0x2000 \<le> c \<and> c \<le> 0x200A) \<or> c = 0x2028 \<or> c = 0x2029
      \<or> c = 0x202F \<or> c = 0x205F \<or> c = 0x3000)"

text \<open>\<^verbatim>\<open>s.strip()\<close>: leading and trailing whitespace removed.\<close>

definition strip :: "pystr \<Rightarrow> pystr" where
  "strip s = rev (dropWhile isspace (rev (dropWhile isspace s)))"

text \<open>\<^verbatim>\<open>str(i)\<close> for an integer: its decimal digits, with a sign when negative.\<close>

fun digits :: "nat \<Rightarrow> pystr" where
  "digits n = (if n < 10 then [48 + n] else digits (n div 10) @ [48 + n mod 10])"

definition str_int :: "int \<Rightarrow> pystr" where
  "str_int i = (if i < 0 then 45 # digits (nat (- i)) else digits (nat i))"

text \<open>\<^verbatim>\<open>range(n)\<close>: empty when \<open>n \<le> 0\<close>.\<close>

definition range_py :: "int \<Rightarrow> int list" where
  "range_py n = map int [0..<nat n]"


section \<open>DocumentCategory\<close>

datatype DocumentCategory =
    DISTRIBUTED_SYSTEMS
  | NATURAL_LANGUAGE_PROCESSING
  | HARDWARE
  | ALGORITHMS
  | PERFORMANCE_ENGINEERING
  | NETWORKS
  | TEACHING
  | MACHINE_LEARNING
  | LINEAR_ALGEBRA
  | OPERATING_SYSTEMS
  | COMPUTER_SCIENCE
  | DATABASE_DESIGN
  | DATABASE_SYSTEMS
  | GRAPH_THEORY
  | MATHEMATICS
  | OPERATIONS_RESEARCH
  | SOFTWARE_ENGINEERING
  | SYSTEM_DESIGN
  | RESEARCH
  | SYSTEMS
  | OTHER

text \<open>The \<^verbatim>\<open>.value\<close> of a member.\<close>

fun value_of :: "DocumentCategory \<Rightarrow> pystr" where
  "value_of DISTRIBUTED_SYSTEMS = str ''Distributed Systems''"
| "value_of NATURAL_LANGUAGE_PROCESSING = str ''Natural Language Processing''"
| "value_of HARDWARE = str ''Hardware''"
| "value_of ALGORITHMS = str ''Algorithms''"
| "value_of PERFORMANCE_ENGINEERING = str ''Performance Engineering''"
| "value_of NETWORKS = str ''Networks''"
| "value_of TEACHING = str ''Teaching''"
| "value_of MACHINE_LEARNING = str ''Machine Learning''"
| "value_of LINEAR_ALGEBRA = str ''Linear Algebra''"
| "value_of OPERATING_SYSTEMS = str ''Operating Systems''"
| "value_of COMPUTER_SCIENCE = str ''Computer Science''"
| "value_of DATABASE_DESIGN = str ''Database Design''"
| "value_of DATABASE_SYSTEMS = str ''Database Systems''"
| "value_of GRAPH_THEORY = str ''Graph Theory''"
| "value_of MATHEMATICS = str ''Mathematics''"
| "value_of OPERATIONS_RESEARCH = str ''Operations Research''"
| "value_of SOFTWARE_ENGINEERING = str ''Software Engineering''"
| "value_of SYSTEM_DESIGN = str ''System Design''"
| "value_of RESEARCH = str ''Research''"
| "value_of SYSTEMS = str ''Systems''"
| "value_of OTHER = str ''Other''"

text \<open>The members in definition order, as iterating over the enumeration yields them.\<close>

definition members :: "DocumentCategory list" where
  "members =
     [DISTRIBUTED_SYSTEMS, NATURAL_LANGUAGE_PROCESSING, HARDWARE, ALGORITHMS,
      PERFORMANCE_ENGINEERING, NETWORKS, TEACHING, MACHINE_LEARNING, LINEAR_ALGEBRA,
      OPERATING_SYSTEMS, COMPUTER_SCIENCE, DATABASE_DESIGN, DATABASE_SYSTEMS, GRAPH_THEORY,
      MATHEMATICS, OPERATIONS_RESEARCH, SOFTWARE_ENGINEERING, SYSTEM_DESIGN, RESEARCH,
      SYSTEMS, OTHER]"

text \<open>\<^verbatim>\<open>DocumentCategory(v)\<close>: the member whose value is \<open>v\<close>; \<open>None\<close> stands for the
  \<^verbatim>\<open>ValueError\<close> the lookup raises when there is none.\<close>

definition DocumentCategory_of :: "pystr \<Rightarrow> DocumentCategory option" where
  "DocumentCategory_of v = find (\<lambda>cat. value_of cat = v) members"


section \<open>Exceptions\<close>

datatype field_name = Field_title | Field_category | Field_tags | Field_description

datatype error_type = string_unicode | string_too_short | string_too_long

text \<open>
  The exceptions that occur inside \<^verbatim>\<open>get_tags\<close>, all of them subclasses of
  \<^verbatim>\<open>Exception\<close>: whatever the chat dependency raises (with its message), the
  \<^verbatim>\<open>AttributeError\<close> of calling \<^verbatim>\<open>.strip()\<close> on a response without text content,
  the \<^verbatim>\<open>ValidationError\<close> of the schema (with one line per failed field), and the
  \<^verbatim>\<open>ValueError\<close> that \<^verbatim>\<open>get_tags\<close> raises itself.
\<close>

datatype py_exception =
    ChatError pystr
  | AttributeError
  | ValidationError "(field_name \<times> error_type) list"
  | ValueError pystr


section \<open>TaggingModel\<close>

record TaggingModel =
  title :: pystr
  category :: pystr
  tags :: pystr
  description :: pystr

text \<open>
  A Python string may hold surrogate code points (the JSON text \<^verbatim>\<open>"\udfff"\<close> decodes to
  one); such a string cannot be encoded as UTF-8. The validation of a field of type
  \<^verbatim>\<open>str\<close> reads the string as UTF-8 first and rejects it, with the error
  \<^verbatim>\<open>string_unicode\<close>, when that fails.
\<close>

definition surrogate :: "nat \<Rightarrow> bool" where
  "surrogate c \<longleftrightarrow> 0xD800 \<le> c \<and> c \<le> 0xDFFF"

definition encodable :: "pystr \<Rightarrow> bool" where
  "encodable v = list_all (\<lambda>c. \<not> surrogate c) v"

text \<open>The constraints of a \<^verbatim>\<open>Field\<close> of type \<^verbatim>\<open>str\<close>: text that can be encoded, then
  \<^verbatim>\<open>min_length\<close> and, when given, \<^verbatim>\<open>max_length\<close>. The result lists the errors of the
  field.\<close>

definition Field_str :: "field_name \<Rightarrow> nat \<Rightarrow> nat option \<Rightarrow> pystr \<Rightarrow> (field_name \<times> error_type) list" where
  "Field_str name min_length max_length v =
     (if \<not> encodable v then [(name, string_unicode)]
      else if length v < min_length then [(name, string_too_short)]
      else (case max_length of
              None \<Rightarrow> []
            | Some m \<Rightarrow> if m < length v then [(name, string_too_long)] else []))"

definition validate_tags :: "pystr \<Rightarrow> pystr" where
  "validate_tags v = (let tags = map strip (split 44 v) in v)"

text \<open>The validator of the category returns the value and what it printed.\<close>

definition validate_category :: "pystr \<Rightarrow> pystr list \<times> pystr" where
  "validate_category v =
     (case DocumentCategory_of v of
        Some cat \<Rightarrow> ([], value_of cat)
      | None \<Rightarrow> ([str ''Invalid category: '' @ v], value_of OTHER))"

text \<open>
  \<^verbatim>\<open>TaggingModel(**tags_dict)\<close>. The fields are validated in the order of their
  declaration; the validator of a field runs only when the field has passed its own
  constraints; the errors of all fields are collected and raised together. The result
  carries the lines printed during validation.
\<close>

definition TaggingModel_init :: "TaggingModel \<Rightarrow> pystr list \<times> (py_exception + TaggingModel)" where
  "TaggingModel_init tags_dict =
     (let e_title = Field_str Field_title 1 (Some 200) (title tags_dict);
          e_category = Field_str Field_category 1 (Some 50) (category tags_dict);
          (printed, v_category) =
             (if e_category = [] then validate_category (category tags_dict)
              else ([], category tags_dict));
          e_tags = Field_str Field_tags 1 None (tags tags_dict);
          v_tags = (if e_tags = [] then validate_tags (tags tags_dict) else tags tags_dict);
          e_description = Field_str Field_description 10 (Some 1000) (description tags_dict);
          errors = e_title @ e_category @ e_tags @ e_description
      in (printed,
          if errors = []
          then Inr \<lparr>title = title tags_dict, category = v_category, tags = v_tags,
                    description = description tags_dict\<rparr>
          else Inl (ValidationError errors)))"


section \<open>The chat dependency and the world around the tagger\<close>

record chat_request =
  model :: pystr
  messages :: "(pystr \<times> pystr) list"
  options :: "(pystr \<times> int) list"

text \<open>A call of \<^verbatim>\<open>chat\<close> raises an exception (with its message) or returns a response,
  whose \<^verbatim>\<open>["message"]["content"]\<close> is a string or \<^verbatim>\<open>None\<close>. The exceptions are those that
  \<^verbatim>\<open>except Exception\<close> catches; an interrupt of the process is not a behaviour of the
  dependency and is left out.\<close>

datatype chat_result = ChatRaises pystr | ChatReturns "pystr option"

text \<open>The dependency has a state of its own, of any type: it may answer the same request
  differently each time.\<close>

type_synonym 's chat = "'s \<Rightarrow> chat_request \<Rightarrow> chat_result \<times> 's"

text \<open>The records of the logger: the warning of \<^verbatim>\<open>_get_single_field\<close>, the warning of
  \<^verbatim>\<open>get_tags\<close> (both with the attempt number they print) and the error of \<^verbatim>\<open>get_tags\<close>.\<close>

datatype log_record =
    FieldWarning int py_exception
  | AttemptWarning int py_exception
  | AllAttemptsFailed

record 's world =
  dep :: 's
  exchanges :: "(chat_request \<times> chat_result) list"
  logged :: "log_record list"
  stdout :: "pystr list"


section \<open>DocumentTagger\<close>

text \<open>The state of a tagger. Its \<^verbatim>\<open>json_schema\<close> is computed by the constructor and never
  read, so it is left out. The constructor takes any integer as \<^verbatim>\<open>max_retries\<close>.\<close>

record DocumentTagger =
  model_name :: pystr
  max_retries :: int

definition create_title_prompt :: "pystr \<Rightarrow> pystr" where
  \<open>create_title_prompt document_content = join NL
     [str ''<task>Extract a technical document title</task>'',
      str '''',
      str ''<context>'',
      take 1000 document_content @ str ''  # Only first 1000 chars needed for title'',
      str ''</context>'',
      str '''',
      str ''<requirements>'',
      str ''- Maximum length: 200 characters'',
      str ''- If main heading exists (# or ##), use that directly'',
      str ''- No markdown formatting in output'',
      str ''- Must be specific and technical'',
      str ''- Focus on core subject matter'',
      str ''</requirements>'',
      str '''',
      str ''<output_format>'',
      str ''Title only, no explanations or additional text'',
      str ''</output_format>'',
      str '''',
      str ''<examples>'',
      str ''Input: # Building Distributed Systems with Kafka'',
      str ''Output: Building Distributed Systems with Kafka'',
      str '''',
      str ''Input: This paper discusses optimization techniques...'',
      str ''Output: Optimization Techniques for Large-Scale Systems'',
      str '''',
      str ''Bad output: "Title: Database Sharding Patterns"'',
      str ''Bad output: # Database Sharding Patterns'',
      str ''</examples>'']\<close>

definition create_category_prompt :: "pystr \<Rightarrow> pystr \<Rightarrow> pystr" where
  \<open>create_category_prompt document_content title' =
     (let categories = join NL (map (\<lambda>cat. str ''- '' @ value_of cat) members)
      in join NL
     [str ''<task>Categorize a technical document</task>'',
      str '''',
      str ''<context>'',
      str ''Title: '' @ title',
      str ''First 1000 chars: '' @ take 1000 document_content,
      str ''</context>'',
      str '''',
      str ''<valid_categories>'',
      categories,
      str ''</valid_categories>'',
      str '''',
      str ''<requirements>'',
      str ''- Select exactly ONE category'',
      str ''- Match category name exactly'',
      str ''- Use Other only if no category fits'',
      str ''</requirements>'',
      str '''',
      str ''<output_format>'',
      str ''Category name only, no explanations or additional text'',
      str ''</output_format>'',
      str '''',
      str ''<examples>'',
      str ''Good: Database Systems'',
      str ''Bad: "Category: Database Systems"'',
      str ''Bad: This belongs in Database Systems'',
      str ''</examples>''])\<close>

definition create_tags_prompt :: "pystr \<Rightarrow> pystr \<Rightarrow> pystr \<Rightarrow> pystr" where
  \<open>create_tags_prompt document_content title' category' = join NL
     [str ''<task>Generate technical tags</task>'',
      str '''',
      str ''<context>'',
      str ''Title: '' @ title',
      str ''Category: '' @ category',
      str ''First 1500 chars: '' @ take 1500 document_content,
      str ''</context>'',
      str '''',
      str ''<requirements>'',
      str ''- 3-7 tags total'',
      str ''- Comma-separated format'',
      str ''- Specific technical terms only'',
      str ''- Mix of high-level and specific concepts'',
      str ''- No markdown or formatting'',
      str ''</requirements>'',
      str '''',
      str ''<output_format>'',
      str ''tag1, tag2, tag3'',
      str ''No explanations or additional text'',
      str ''</output_format>'',
      str '''',
      str ''<examples>'',
      str ''Good: distributed systems, fault tolerance, consensus algorithms'',
      str ''Bad: "Tags: databases, sql, indexing"'',
      str ''Bad: 1. databases 2. sql 3. indexing'',
      str ''</examples>'']\<close>

definition create_description_prompt :: "pystr \<Rightarrow> pystr \<Rightarrow> pystr \<Rightarrow> pystr \<Rightarrow> pystr" where
  \<open>create_description_prompt document_content title' category' tags' =
     (let headers = join NL (filter (\<lambda>line. startswith line (str ''#'')) (split 10 document_content))
      in join NL
     [str ''<task>Write technical document description</task>'',
      str '''',
      str ''<context>'',
      str ''Title: '' @ title',
      str ''Category: '' @ category',
      str ''Tags: '' @ tags',
      str ''Document headers:'',
      headers,
      str ''</context>'',
      str '''',
      str ''<requirements>'',
      str ''- Maximum 3 sentences'',
      str ''- No markdown formatting'',
      str ''- Focus on technical content'',
      str ''- Be specific about concepts covered'',
      str ''- Maximum length: 1000 characters'',
      str ''- Don\'t start with "This document" or similar'',
      str ''</requirements>'',
      str '''',
      str ''<output_format>'',
      str ''Plain text description only'',
      str ''No explanations or additional text'',
      str ''</output_format>'',
      str '''',
      str ''<examples>'',
      str ''Good: Explores distributed consensus algorithms with focus on Raft implementation. Covers leader election, log replication, and safety proofs.'',
      str ''Bad: "Description: This document covers distributed systems..."'',
      str ''Bad: # Overview of consensus algorithms'',
      str ''</examples>''])\<close>

text \<open>The request that \<^verbatim>\<open>_get_single_field\<close> sends for a prompt.\<close>

definition request :: "DocumentTagger \<Rightarrow> pystr \<Rightarrow> chat_request" where
  "request self prompt =
     \<lparr>model = model_name self,
      messages =
        [(str ''system'', str ''You are a precise technical document analyzer. Your task is to output ONLY the requested information without any additional text, formatting, or explanations.''),
         (str ''user'', prompt)],
      options = [(str ''num_ctx'', 2048), (str ''max_tokens'', 200)]\<rparr>"

text \<open>
  \<^verbatim>\<open>_get_single_field\<close>: one call of the dependency, recorded in \<open>exchanges\<close>. An
  exception of the call, or of reading the text of the response, is logged and raised
  again.
\<close>

definition get_single_field ::
  "'s chat \<Rightarrow> DocumentTagger \<Rightarrow> pystr \<Rightarrow> int \<Rightarrow> 's world \<Rightarrow> (py_exception + pystr) \<times> 's world" where
  "get_single_field chat self prompt attempt_num w =
     (let (response, d) = chat (dep w) (request self prompt);
          w' = w\<lparr>dep := d, exchanges := exchanges w @ [(request self prompt, response)]\<rparr>
      in case (case response of
                 ChatRaises msg \<Rightarrow> Inl (ChatError msg)
               | ChatReturns None \<Rightarrow> Inl AttributeError
               | ChatReturns (Some content) \<Rightarrow> Inr (strip content)) of
           Inr field \<Rightarrow> (Inr field, w')
         | Inl e \<Rightarrow> (Inl e, w'\<lparr>logged := logged w' @ [FieldWarning (attempt_num + 1) e]\<rparr>))"

text \<open>The body of the \<^verbatim>\<open>try\<close> of \<^verbatim>\<open>get_tags\<close>: the four calls, each prompt built from the
  fields before it, then the validation. The first exception ends it.\<close>

definition attempt_body ::
  "'s chat \<Rightarrow> DocumentTagger \<Rightarrow> pystr \<Rightarrow> int \<Rightarrow> 's world \<Rightarrow> (py_exception + TaggingModel) \<times> 's world" where
  "attempt_body chat self document_content attempt w =
     (case get_single_field chat self (create_title_prompt document_content) attempt w of
        (Inl e, w1) \<Rightarrow> (Inl e, w1)
      | (Inr title', w1) \<Rightarrow>
     (case get_single_field chat self (create_category_prompt document_content title') attempt w1 of
        (Inl e, w2) \<Rightarrow> (Inl e, w2)
      | (Inr category', w2) \<Rightarrow>
     (case get_single_field chat self
             (create_tags_prompt document_content title' category') attempt w2 of
        (Inl e, w3) \<Rightarrow> (Inl e, w3)
      | (Inr tags', w3) \<Rightarrow>
     (case get_single_field chat self
             (create_description_prompt document_content title' category' tags') attempt w3 of
        (Inl e, w4) \<Rightarrow> (Inl e, w4)
      | (Inr description', w4) \<Rightarrow>
          (let tags_dict = \<lparr>title = title', category = category', tags = tags',
                            description = description'\<rparr>;
               (printed, validated_tags) = TaggingModel_init tags_dict;
               w5 = w4\<lparr>stdout := stdout w4 @ printed\<rparr>
           in case validated_tags of
                Inl e \<Rightarrow> (Inl e, w5)
              | Inr m \<Rightarrow> (Inr m, w5))))))"

text \<open>What a call of \<^verbatim>\<open>get_tags\<close> does: it returns the dumped model, returns \<^verbatim>\<open>None\<close> (the
  loop ends without a \<^verbatim>\<open>return\<close>), or raises.\<close>

datatype outcome = Returns TaggingModel | ReturnsNone | Raises py_exception

text \<open>The loop of \<^verbatim>\<open>get_tags\<close> over the attempt numbers that are left.\<close>

fun get_tags_loop ::
  "'s chat \<Rightarrow> DocumentTagger \<Rightarrow> pystr \<Rightarrow> int list \<Rightarrow> 's world \<Rightarrow> outcome \<times> 's world" where
  "get_tags_loop chat self document_content [] w = (ReturnsNone, w)"
| "get_tags_loop chat self document_content (attempt # rest) w =
     (case attempt_body chat self document_content attempt w of
        (Inr validated_tags, w') \<Rightarrow> (Returns validated_tags, w')
      | (Inl e, w') \<Rightarrow>
          (let w'' = w'\<lparr>logged := logged w' @ [AttemptWarning (attempt + 1) e]\<rparr>
           in if attempt = max_retries self - 1
              then (Raises (ValueError (str ''Failed to generate valid tags after ''
                                         @ str_int (max_retries self) @ str '' attempts'')),
                    w''\<lparr>logged := logged w'' @ [AllAttemptsFailed]\<rparr>)
              else get_tags_loop chat self document_content rest w''))"

definition get_tags :: "'s chat \<Rightarrow> DocumentTagger \<Rightarrow> pystr \<Rightarrow> 's world \<Rightarrow> outcome \<times> 's world" where
  "get_tags chat self document_content w =
     get_tags_loop chat self document_content (range_py (max_retries self)) w"


section \<open>Test doubles for the dependency\<close>

text \<open>A world in which nothing has happened yet.\<close>

definition world0 :: "'s \<Rightarrow> 's world" where
  "world0 d = \<lparr>dep = d, exchanges = [], logged = [], stdout = []\<rparr>"

text \<open>A dependency that raises on every call.\<close>

definition failing_chat :: "unit chat" where
  "failing_chat s req = (ChatRaises (str ''connection refused''), s)"

text \<open>A dependency that plays a script: each call consumes the next result, and raises
  once the script is used up.\<close>

fun scripted_chat :: "(chat_result list) chat" where
  "scripted_chat [] req = (ChatRaises (str ''no response left''), [])"
| "scripted_chat (r # rs) req = (r, rs)"

definition llama :: "int \<Rightarrow> DocumentTagger" where
  "llama n = \<lparr>model_name = str ''llama3.2'', max_retries = n\<rparr>"


text \<open>Records to validate: an unknown category, a single tag and twenty tags, the last
  two with a description that opens with "This document".\<close>

definition blockchain :: TaggingModel where
  "blockchain = \<lparr>title = str ''Raft Consensus'', category = str ''Blockchain'',
     tags = str ''consensus, raft, leader election'',
     description = str ''Explores leader election in Raft.''\<rparr>"

definition one_tag :: TaggingModel where
  "one_tag = \<lparr>title = str ''Raft Consensus'', category = str ''Distributed Systems'',
     tags = str ''raft'', description = str ''This document covers Raft.''\<rparr>"

definition twenty_tags :: TaggingModel where
  "twenty_tags = \<lparr>title = str ''Raft Consensus'', category = str ''Distributed Systems'',
     tags = str ''a,b,c,d,e,f,g,h,i,j,k,l,m,n,o,p,q,r,s,t'',
     description = str ''This document covers Raft.''\<rparr>"

text \<open>A record whose tags string is the single surrogate U+DFFF.\<close>

definition surrogate_tag :: TaggingModel where
  "surrogate_tag = \<lparr>title = str ''Raft Consensus'', category = str ''Distributed Systems'',
     tags = [0xDFFF], description = str ''Explores leader election in Raft.''\<rparr>"


text \<open>The scenario of the specification: a document on Raft and a dependency that answers
  the four prompts well, with some whitespace around two of the answers.\<close>

definition raft_doc :: pystr where
  "raft_doc = str ''# Raft Consensus\<newline>This paper covers leader election...''"

definition raft_script :: "chat_result list" where
  "raft_script =
     [ChatReturns (Some (str ''Raft Consensus\<newline>'')),
      ChatReturns (Some (str ''Distributed Systems'')),
      ChatReturns (Some (str '' consensus, raft, leader election'')),
      ChatReturns (Some (str ''Explores leader election in Raft.''))]"

definition raft_record :: TaggingModel where
  "raft_record = \<lparr>title = str ''Raft Consensus'', category = str ''Distributed Systems'',
     tags = str ''consensus, raft, leader election'',
     description = str ''Explores leader election in Raft.''\<rparr>"

text \<open>A script whose first attempt fails at the category call and whose second attempt
  fails validation (the title is blank), followed by the good answers.\<close>

definition retry_script :: "chat_result list" where
  "retry_script =
     [ChatReturns (Some (str ''Raft Consensus'')), ChatRaises (str ''timeout''),
      ChatReturns (Some (str ''    '')), ChatReturns (Some (str ''Systems'')),
      ChatReturns (Some (str ''raft'')), ChatReturns (Some (str ''Explores Raft.''))]
     @ raft_script"

text \<open>A script whose category answer is the single surrogate U+D800.\<close>

definition surrogate_script :: "chat_result list" where
  "surrogate_script =
     [ChatReturns (Some (str ''Raft Consensus'')), ChatReturns (Some [0xD800]),
      ChatReturns (Some (str ''consensus, raft'')),
      ChatReturns (Some (str ''Explores leader election in Raft.''))]"



section \<open>Vocabulary of the properties\<close>

text \<open>The length bounds that the four \<^verbatim>\<open>Field\<close> declarations of \<^verbatim>\<open>TaggingModel\<close> state.\<close>

definition within_bounds :: "TaggingModel \<Rightarrow> bool" where
  "within_bounds d \<longleftrightarrow>
     1 \<le> length (title d) \<and> length (title d) \<le> 200
     \<and> 1 \<le> length (category d) \<and> length (category d) \<le> 50
     \<and> 1 \<le> length (tags d)
     \<and> 10 \<le> length (description d) \<and> length (description d) \<le> 1000"

text \<open>What the four \<^verbatim>\<open>Field\<close> declarations demand together: text that can be encoded,
  within the length bounds.\<close>

definition accepted :: "TaggingModel \<Rightarrow> bool" where
  "accepted d \<longleftrightarrow>
     encodable (title d) \<and> encodable (category d) \<and> encodable (tags d)
     \<and> encodable (description d) \<and> within_bounds d"


text \<open>A call of the dependency fails when it raises or returns a response without text.\<close>

fun call_fails :: "chat_result \<Rightarrow> bool" where
  "call_fails (ChatReturns (Some content)) = False"
| "call_fails (ChatReturns None) = True"
| "call_fails (ChatRaises msg) = True"

text \<open>The terminal error: the \<^verbatim>\<open>ValueError\<close> that \<^verbatim>\<open>get_tags\<close> raises when its last attempt
  has failed.\<close>

definition exhausted :: "DocumentTagger \<Rightarrow> py_exception" where
  "exhausted self = ValueError (str ''Failed to generate valid tags after ''
                                 @ str_int (max_retries self) @ str '' attempts'')"

text \<open>The outcomes that the specification allows: a record whose category is the value
  of a member of \<open>DocumentCategory\<close>, or the terminal error.\<close>

fun category_or_exhausted :: "DocumentTagger \<Rightarrow> outcome \<Rightarrow> bool" where
  "category_or_exhausted self (Returns r) = (category r \<in> set (map value_of members))"
| "category_or_exhausted self ReturnsNone = False"
| "category_or_exhausted self (Raises e) = (e = exhausted self)"



text \<open>The attempt numbers in the warnings that \<^verbatim>\<open>get_tags\<close> logged, in order.\<close>

fun attempts_logged :: "log_record list \<Rightarrow> int list" where
  "attempts_logged [] = []"
| "attempts_logged (AttemptWarning n e # rs) = n # attempts_logged rs"
| "attempts_logged (r # rs) = attempts_logged rs"

text \<open>A list of attempt numbers that ends with \<open>k\<close> and does not contain it before.\<close>

definition ends_at :: "int \<Rightarrow> int list \<Rightarrow> bool" where
  "ends_at k as \<longleftrightarrow> as \<noteq> [] \<and> last as = k \<and> k \<notin> set (butlast as)"


section \<open>The loop without attempts\<close>

lemma range_py_nonpos: "n \<le> 0 \<Longrightarrow> range_py n = []"
  by (simp add: range_py_def)

text \<open>
  C9. A tagger whose \<open>max_retries\<close> is zero or negative returns \<^verbatim>\<open>None\<close> for every
  document: the dependency is not called, nothing is logged or printed (the world is
  unchanged), and no exception is raised.
\<close>

theorem none_without_retries:
  "max_retries self \<le> 0 \<Longrightarrow> get_tags chat self document_content w = (ReturnsNone, w)"
  by (simp add: get_tags_def range_py_nonpos)

theorem none_without_retries_witness:
  "max_retries (llama 0) \<le> 0
   \<and> get_tags failing_chat (llama 0) (str ''# Raft'') (world0 ()) = (ReturnsNone, world0 ())"
  using none_without_retries [of "llama 0" failing_chat "str ''# Raft''" "world0 ()"]
  by (simp add: llama_def)


section \<open>Truncation of the document in the prompts\<close>

text \<open>
  C5. The title prompt of a document is the title prompt of its first 1000 characters,
  and the tags prompt of a document is the tags prompt of its first 1500 characters:
  nothing of the document beyond these prefixes reaches either prompt.
\<close>

theorem prompts_truncate:
  "create_title_prompt document_content = create_title_prompt (take 1000 document_content)
   \<and> create_tags_prompt document_content t c
       = create_tags_prompt (take 1500 document_content) t c"
  by (simp add: create_title_prompt_def create_tags_prompt_def)


section \<open>Validation\<close>

lemma DocumentCategory_of_Some: "DocumentCategory_of v = Some cat \<Longrightarrow> value_of cat = v"
  by (auto simp: DocumentCategory_of_def find_Some_iff)

lemma DocumentCategory_of_None:
  "DocumentCategory_of v = None \<longleftrightarrow> v \<notin> set (map value_of members)"
  by (auto simp: DocumentCategory_of_def find_None_iff)

lemma members_all: "cat \<in> set members"
  by (cases cat) (simp_all add: members_def)

lemma validate_category_value:
  "snd (validate_category v) = (if v \<in> set (map value_of members) then v else str ''Other'')"
proof (cases "DocumentCategory_of v")
  case None
  then show ?thesis
    using DocumentCategory_of_None [of v] by (simp add: validate_category_def)
next
  case (Some cat)
  then have "value_of cat = v" by (rule DocumentCategory_of_Some)
  with Some show ?thesis
    using members_all [of cat] by (auto simp: validate_category_def)
qed

lemma validate_category_member: "snd (validate_category v) \<in> set (map value_of members)"
proof -
  have "str ''Other'' \<in> set (map value_of members)"
    using members_all [of OTHER] by (metis image_eqI list.set_map value_of.simps(21))
  then show ?thesis by (simp add: validate_category_value)
qed

lemma validate_tags_id: "validate_tags v = v"
  by (simp add: validate_tags_def)

lemma Field_str_empty:
  "Field_str name lo hi v = []
     \<longleftrightarrow> encodable v \<and> lo \<le> length v
         \<and> (case hi of None \<Rightarrow> True | Some m \<Rightarrow> length v \<le> m)"
  by (auto simp: Field_str_def split: option.splits)

text \<open>Validation succeeds exactly on the records that the field declarations accept, and
  then changes at most the category.\<close>

lemma TaggingModel_init_result:
  "snd (TaggingModel_init d) =
     (if accepted d then Inr (d\<lparr>category := snd (validate_category (category d))\<rparr>)
      else Inl (ValidationError
         (Field_str Field_title 1 (Some 200) (title d)
          @ Field_str Field_category 1 (Some 50) (category d)
          @ Field_str Field_tags 1 None (tags d)
          @ Field_str Field_description 10 (Some 1000) (description d))))"
  by (auto simp: TaggingModel_init_def Let_def accepted_def within_bounds_def Field_str_empty
      validate_tags_id split: prod.splits)

text \<open>The length of the category is checked before its validator runs: a category of
  more than 50 characters, or an empty one, is an error and is not replaced.\<close>

lemma category_out_of_bounds:
  "category d = [] \<or> 50 < length (category d)
     \<Longrightarrow> snd (TaggingModel_init d) =
           Inl (ValidationError
             (Field_str Field_title 1 (Some 200) (title d)
              @ Field_str Field_category 1 (Some 50) (category d)
              @ Field_str Field_tags 1 None (tags d)
              @ Field_str Field_description 10 (Some 1000) (description d)))"
  by (auto simp: TaggingModel_init_result accepted_def within_bounds_def)

text \<open>
  C2. A category that is not the value of any member of \<open>DocumentCategory\<close>, in a record
  that meets every constraint of the four fields (encodable text within the length
  bounds, so that the record validates but for the unknown category), validates to the
  record with the category \<open>Other\<close>.
\<close>

theorem category_coercion:
  assumes "category tags_dict \<notin> set (map value_of members)" and "accepted tags_dict"
  shows "snd (TaggingModel_init tags_dict) = Inr (tags_dict\<lparr>category := str ''Other''\<rparr>)"
  using assms by (simp add: TaggingModel_init_result validate_category_value)

theorem category_coercion_witness:
  "category blockchain \<notin> set (map value_of members) \<and> accepted blockchain
   \<and> snd (TaggingModel_init blockchain) = Inr (blockchain\<lparr>category := str ''Other''\<rparr>)"
proof -
  have 1: "category blockchain \<notin> set (map value_of members)"
    by (simp add: blockchain_def members_def str_def)
  have 2: "accepted blockchain"
    by (simp add: blockchain_def accepted_def within_bounds_def encodable_def surrogate_def str_def)
  from 1 2 category_coercion [OF 1 2] show ?thesis by simp
qed

text \<open>
  C8, as the code has it. Every non-empty tags string that can be encoded passes the
  constraints of its field and comes out of its validator unchanged, however many
  comma-separated items it has; and a record that the field declarations accept
  validates with title, tags and description as they are, whatever the number of tags
  and however the description opens. Neither the count of three to seven tags nor the
  ban on a generic opening is checked.
\<close>

theorem tag_count_not_enforced:
  assumes "tags tags_dict \<noteq> []" and "encodable (tags tags_dict)"
  shows "Field_str Field_tags 1 None (tags tags_dict) = []
       \<and> validate_tags (tags tags_dict) = tags tags_dict
       \<and> (accepted tags_dict \<longrightarrow>
            snd (TaggingModel_init tags_dict)
              = Inr (tags_dict\<lparr>category := snd (validate_category (category tags_dict))\<rparr>))"
  using assms
  by (cases "tags tags_dict") (simp_all add: Field_str_def validate_tags_id TaggingModel_init_result)

theorem tag_count_not_enforced_witness:
  "tags one_tag \<noteq> [] \<and> encodable (tags one_tag) \<and> length (split 44 (tags one_tag)) = 1
   \<and> startswith (description one_tag) (str ''This document'')
   \<and> accepted one_tag \<and> snd (TaggingModel_init one_tag) = Inr one_tag
   \<and> tags twenty_tags \<noteq> [] \<and> encodable (tags twenty_tags)
   \<and> length (split 44 (tags twenty_tags)) = 20
   \<and> accepted twenty_tags \<and> snd (TaggingModel_init twenty_tags) = Inr twenty_tags"
proof -
  have a: "tags one_tag \<noteq> []" and b: "tags twenty_tags \<noteq> []"
    by (simp_all add: one_tag_def twenty_tags_def str_def)
  have a': "encodable (tags one_tag)" and b': "encodable (tags twenty_tags)"
    by (simp_all add: one_tag_def twenty_tags_def encodable_def surrogate_def str_def)
  have c: "accepted one_tag" and d: "accepted twenty_tags"
    by (simp_all add: one_tag_def twenty_tags_def accepted_def within_bounds_def encodable_def
        surrogate_def str_def)
  have e: "length (split 44 (tags one_tag)) = 1" "length (split 44 (tags twenty_tags)) = 20"
    by (simp_all add: one_tag_def twenty_tags_def str_def)
  have f: "startswith (description one_tag) (str ''This document'')"
    by (simp add: one_tag_def startswith_def str_def)
  have g: "\<And>c. one_tag\<lparr>category := c\<rparr> = one_tag \<longleftrightarrow> c = category one_tag"
     "\<And>c. twenty_tags\<lparr>category := c\<rparr> = twenty_tags \<longleftrightarrow> c = category twenty_tags"
    by (auto simp: one_tag_def twenty_tags_def)
  have h: "category one_tag \<in> set (map value_of members)"
     "category twenty_tags \<in> set (map value_of members)"
    by (simp_all add: one_tag_def twenty_tags_def members_def)
  from tag_count_not_enforced [OF a a'] tag_count_not_enforced [OF b b'] a b a' b' c d e f h
  show ?thesis
    by (auto simp: TaggingModel_init_result validate_category_value g)
qed

text \<open>Without the condition on the text the claim fails: the tags string that is the
  single surrogate U+DFFF is not empty, and it does not pass the constraints of its
  field; the record is rejected though every length bound is met.\<close>

theorem surrogate_tags_rejected:
  "tags surrogate_tag \<noteq> [] \<and> within_bounds surrogate_tag
   \<and> Field_str Field_tags 1 None (tags surrogate_tag) = [(Field_tags, string_unicode)]
   \<and> snd (TaggingModel_init surrogate_tag)
       = Inl (ValidationError [(Field_tags, string_unicode)])"
  by (simp add: surrogate_tag_def within_bounds_def Field_str_def encodable_def surrogate_def
      TaggingModel_init_def Let_def validate_category_def DocumentCategory_of_def members_def
      str_def)


section \<open>One call, one attempt\<close>

lemma attempts_logged_append:
  "attempts_logged (xs @ ys) = attempts_logged xs @ attempts_logged ys"
  by (induction xs rule: attempts_logged.induct) simp_all

lemma get_single_field_Inr:
  assumes "get_single_field chat self prompt a w = (Inr field, w')"
  shows "\<exists>content. field = strip content
          \<and> exchanges w' = exchanges w @ [(request self prompt, ChatReturns (Some content))]
          \<and> logged w' = logged w \<and> stdout w' = stdout w"
  using assms
  by (auto simp: get_single_field_def Let_def split: prod.splits chat_result.splits option.splits)

lemma get_single_field_Inl:
  assumes "get_single_field chat self prompt a w = (Inl e, w')"
  shows "\<exists>res. call_fails res
          \<and> exchanges w' = exchanges w @ [(request self prompt, res)]
          \<and> logged w' = logged w @ [FieldWarning (a + 1) e] \<and> stdout w' = stdout w"
proof -
  obtain res d where c: "chat (dep w) (request self prompt) = (res, d)"
    by (cases "chat (dep w) (request self prompt)")
  show ?thesis
  proof (cases res)
    case (ChatRaises msg)
    with c assms show ?thesis
      by (intro exI [of _ res]) (auto simp: get_single_field_def)
  next
    case (ChatReturns content)
    with c assms show ?thesis
      by (intro exI [of _ res]) (cases content; auto simp: get_single_field_def)
  qed
qed

lemma get_single_field_fails:
  assumes "call_fails (fst (chat (dep w) (request self prompt)))"
  shows "\<exists>e w'. get_single_field chat self prompt a w = (Inl e, w')"
proof -
  obtain res d where c: "chat (dep w) (request self prompt) = (res, d)"
    by (cases "chat (dep w) (request self prompt)")
  with assms show ?thesis
    by (cases res rule: call_fails.cases) (auto simp: get_single_field_def)
qed

text \<open>An attempt that returns a model made four successful calls, in order, and the model
  is the validated record of the four stripped answers.\<close>

lemma attempt_body_Inr:
  assumes "attempt_body chat self doc a w = (Inr m, w')"
  shows "\<exists>c1 c2 c3 c4.
           exchanges w' = exchanges w @
             [(request self (create_title_prompt doc), ChatReturns (Some c1)),
              (request self (create_category_prompt doc (strip c1)), ChatReturns (Some c2)),
              (request self (create_tags_prompt doc (strip c1) (strip c2)), ChatReturns (Some c3)),
              (request self (create_description_prompt doc (strip c1) (strip c2) (strip c3)),
               ChatReturns (Some c4))]
         \<and> snd (TaggingModel_init \<lparr>title = strip c1, category = strip c2, tags = strip c3,
                                    description = strip c4\<rparr>) = Inr m
         \<and> logged w' = logged w"
  using assms unfolding attempt_body_def
  by (auto split: prod.splits sum.splits simp: Let_def
      dest!: get_single_field_Inr)





lemma attempt_body_first_call_fails:
  assumes "call_fails (fst (chat (dep w) (request self (create_title_prompt doc))))"
  shows "\<exists>e w'. attempt_body chat self doc a w = (Inl e, w')
           \<and> length (exchanges w') = length (exchanges w) + 1
           \<and> fst (last (exchanges w')) = request self (create_title_prompt doc)
           \<and> attempts_logged (logged w') = attempts_logged (logged w)"
proof -
  from assms get_single_field_fails [of chat w self "create_title_prompt doc" a] obtain e w'
    where g: "get_single_field chat self (create_title_prompt doc) a w = (Inl e, w')"
    by blast
  from get_single_field_Inl [OF g] g show ?thesis
    by (auto simp: attempt_body_def attempts_logged_append)
qed


section \<open>The retry loop\<close>

lemma ends_at_Cons:
  "ends_at k (a # as) \<longleftrightarrow> (if as = [] then a = k else a \<noteq> k \<and> ends_at k as)"
  by (auto simp: ends_at_def)

lemma ends_at_range_py: "1 \<le> n \<Longrightarrow> ends_at (n - 1) (range_py n)"
proof -
  assume n: "1 \<le> n"
  define k where "k = nat (n - 1)"
  have 1: "nat n = Suc k" and 2: "n - 1 = int k"
    using n by (simp_all add: k_def)
  show ?thesis
    unfolding ends_at_def range_py_def 1 2 by auto
qed

lemma length_range_py: "length (range_py n) = nat n"
  by (simp add: range_py_def)

lemma range_py_succ: "map (\<lambda>a. a + 1) (range_py n) = [1..n]"
proof (induction "nat n" arbitrary: n)
  case 0
  then show ?case by (simp add: range_py_def)
next
  case (Suc k)
  then have k: "k = nat (n - 1)" and pos: "1 \<le> n" by simp_all
  from Suc.hyps(1) [OF k] have "map (\<lambda>a. a + 1) (range_py (n - 1)) = [1..n - 1]" .
  moreover have "range_py n = range_py (n - 1) @ [n - 1]"
  proof -
    have "nat n = Suc (nat (n - 1))" and "int (nat (n - 1)) = n - 1"
      using pos by simp_all
    then show ?thesis by (simp add: range_py_def)
  qed
  moreover have "[1..n] = [1..n - 1] @ [n]"
    using pos by (simp add: upto_rec2)
  ultimately show ?case by simp
qed

lemma range_py_numeral: "range_py 1 = [0]" "range_py 2 = [0, 1]" "range_py 3 = [0, 1, 2]"
  by (simp_all add: range_py_def upt_rec)

lemma get_tags_loop_Returns:
  "get_tags_loop chat self doc as w = (Returns r, w')
     \<Longrightarrow> \<exists>a w0. attempt_body chat self doc a w0 = (Inr r, w')"
proof (induction as arbitrary: w)
  case Nil
  then show ?case by simp
next
  case (Cons a as)
  obtain res w1 where b: "attempt_body chat self doc a w = (res, w1)"
    by (cases "attempt_body chat self doc a w")
  show ?case
  proof (cases res)
    case (Inr m)
    with b Cons.prems show ?thesis by auto
  next
    case (Inl e)
    with b Cons.prems Cons.IH show ?thesis
      by (auto simp: Let_def split: if_splits)
  qed
qed

lemma get_tags_loop_Raises:
  "get_tags_loop chat self doc as w = (Raises e, w') \<Longrightarrow> e = exhausted self"
proof (induction as arbitrary: w)
  case Nil
  then show ?case by simp
next
  case (Cons a as)
  obtain res w1 where b: "attempt_body chat self doc a w = (res, w1)"
    by (cases "attempt_body chat self doc a w")
  show ?case
  proof (cases res)
    case (Inr m)
    with b Cons.prems show ?thesis by auto
  next
    case (Inl e)
    with b Cons.prems Cons.IH show ?thesis
      by (auto simp: Let_def exhausted_def split: if_splits)
  qed
qed

lemma get_tags_loop_not_None:
  "ends_at (max_retries self - 1) as \<Longrightarrow> fst (get_tags_loop chat self doc as w) \<noteq> ReturnsNone"
proof (induction as arbitrary: w)
  case Nil
  then show ?case by (simp add: ends_at_def)
next
  case (Cons a as)
  obtain res w1 where b: "attempt_body chat self doc a w = (res, w1)"
    by (cases "attempt_body chat self doc a w")
  show ?case
  proof (cases res)
    case (Inr m)
    with b show ?thesis by simp
  next
    case (Inl e)
    with b Cons.prems Cons.IH show ?thesis
      by (auto simp: Let_def ends_at_Cons split: if_splits)
  qed
qed




lemma get_tags_loop_all_fail:
  assumes fails: "\<forall>s req. call_fails (fst (chat s req))"
  shows "ends_at (max_retries self - 1) as
     \<Longrightarrow> \<exists>w'. get_tags_loop chat self doc as w = (Raises (exhausted self), w')
            \<and> length (exchanges w') = length (exchanges w) + length as
            \<and> attempts_logged (logged w') = attempts_logged (logged w) @ map (\<lambda>a. a + 1) as"
proof (induction as arbitrary: w)
  case Nil
  then show ?case by (simp add: ends_at_def)
next
  case (Cons a as)
  from fails have "call_fails (fst (chat (dep w) (request self (create_title_prompt doc))))"
    by blast
  with attempt_body_first_call_fails [of chat w self doc a] obtain e w1
    where b: "attempt_body chat self doc a w = (Inl e, w1)"
      and x: "length (exchanges w1) = length (exchanges w) + 1"
      and l: "attempts_logged (logged w1) = attempts_logged (logged w)"
    by blast
  let ?w2 = "w1\<lparr>logged := logged w1 @ [AttemptWarning (a + 1) e]\<rparr>"
  show ?case
  proof (cases "as = []")
    case True
    with Cons.prems have "a = max_retries self - 1" by (simp add: ends_at_Cons)
    with True b x l show ?thesis
      by (simp add: Let_def exhausted_def attempts_logged_append)
  next
    case False
    with Cons.prems have ne: "a \<noteq> max_retries self - 1" and e: "ends_at (max_retries self - 1) as"
      by (simp_all add: ends_at_Cons)
    from Cons.IH [OF e, of ?w2] obtain w'
      where r: "get_tags_loop chat self doc as ?w2 = (Raises (exhausted self), w')"
        and rx: "length (exchanges w') = length (exchanges ?w2) + length as"
        and rl: "attempts_logged (logged w') = attempts_logged (logged ?w2) @ map (\<lambda>a. a + 1) as"
      by blast
    from b ne r have "get_tags_loop chat self doc (a # as) w = (Raises (exhausted self), w')"
      by (simp add: Let_def)
    with rx rl x l show ?thesis
      by (simp add: attempts_logged_append)
  qed
qed

lemma raft_run:
  "fst (get_tags scripted_chat (llama 3) raft_doc (world0 raft_script)) = Returns raft_record"
  by (simp add: get_tags_def range_py_numeral attempt_body_def get_single_field_def
      llama_def world0_def raft_script_def raft_record_def strip_def isspace_def str_def
      TaggingModel_init_def Field_str_def encodable_def surrogate_def validate_tags_def
      validate_category_def
      DocumentCategory_of_def members_def Let_def)

lemma retry_run:
  "fst (get_tags scripted_chat (llama 3) raft_doc (world0 retry_script)) = Returns raft_record"
  "length (exchanges (snd (get_tags scripted_chat (llama 3) raft_doc (world0 retry_script)))) = 10"
  "logged (snd (get_tags scripted_chat (llama 3) raft_doc (world0 retry_script)))
     = [FieldWarning 1 (ChatError (str ''timeout'')), AttemptWarning 1 (ChatError (str ''timeout'')),
        AttemptWarning 2 (ValidationError [(Field_title, string_too_short)])]"
  by (simp_all add: get_tags_def range_py_numeral attempt_body_def get_single_field_def
      llama_def world0_def retry_script_def raft_script_def raft_record_def strip_def isspace_def str_def
      TaggingModel_init_def Field_str_def encodable_def surrogate_def validate_tags_def
      validate_category_def
      DocumentCategory_of_def members_def Let_def)

text \<open>A category that cannot be encoded is not replaced by \<open>Other\<close>: the attempt fails
  validation, and with a single attempt the run ends in the terminal error.\<close>

lemma surrogate_category_run:
  "fst (get_tags scripted_chat (llama 1) raft_doc (world0 surrogate_script))
     = Raises (exhausted (llama 1))"
  "logged (snd (get_tags scripted_chat (llama 1) raft_doc (world0 surrogate_script)))
     = [AttemptWarning 1 (ValidationError [(Field_category, string_unicode)]), AllAttemptsFailed]"
  by (simp_all add: get_tags_def range_py_numeral attempt_body_def get_single_field_def
      llama_def world0_def surrogate_script_def strip_def isspace_def str_def exhausted_def
      TaggingModel_init_def Field_str_def encodable_def surrogate_def validate_tags_def
      validate_category_def DocumentCategory_of_def members_def Let_def)


section \<open>What get_tags returns and raises\<close>

text \<open>
  C1, as the code has it. With \<open>max_retries \<ge> 1\<close>, for every document, every dependency
  and every world, \<^verbatim>\<open>get_tags\<close> returns a record whose category is the value of a member
  of \<open>DocumentCategory\<close>, or raises the terminal error. The bound on \<open>max_retries\<close> is
  needed: with \<open>max_retries = 0\<close> the call returns \<^verbatim>\<open>None\<close>, which is neither.
\<close>

theorem category_or_retries_exhausted:
  assumes "1 \<le> max_retries self"
  shows "category_or_exhausted self (fst (get_tags chat self document_content w))"
proof (cases "fst (get_tags chat self document_content w)")
  case (Returns r)
  then have "get_tags_loop chat self document_content (range_py (max_retries self)) w
               = (Returns r, snd (get_tags chat self document_content w))"
    by (metis get_tags_def prod.collapse)
  from get_tags_loop_Returns [OF this] obtain a w0 w'
    where "attempt_body chat self document_content a w0 = (Inr r, w')" by blast
  from attempt_body_Inr [OF this] obtain d where "snd (TaggingModel_init d) = Inr r" by blast
  then have "category r = snd (validate_category (category d))"
    by (auto simp: TaggingModel_init_result accepted_def split: if_splits)
  with Returns show ?thesis by (simp add: validate_category_member del: set_map)
next
  case ReturnsNone
  with get_tags_loop_not_None [OF ends_at_range_py [OF assms], of chat document_content w]
  show ?thesis by (simp add: get_tags_def)
next
  case (Raises e)
  then have "get_tags_loop chat self document_content (range_py (max_retries self)) w
               = (Raises e, snd (get_tags chat self document_content w))"
    by (metis get_tags_def prod.collapse)
  from get_tags_loop_Raises [OF this] Raises show ?thesis by simp
qed

theorem category_or_retries_exhausted_witness:
  "1 \<le> max_retries (llama 1)
   \<and> category_or_exhausted (llama 1) (fst (get_tags failing_chat (llama 1) raft_doc (world0 ())))
   \<and> fst (get_tags failing_chat (llama 1) raft_doc (world0 ()))
       = Raises (ValueError (str ''Failed to generate valid tags after 1 attempts''))"
proof -
  have 1: "1 \<le> max_retries (llama 1)" by (simp add: llama_def)
  have "fst (get_tags failing_chat (llama 1) raft_doc (world0 ()))
          = Raises (ValueError (str ''Failed to generate valid tags after 1 attempts''))"
    by (simp add: get_tags_def range_py_numeral attempt_body_def get_single_field_def
      failing_chat_def llama_def world0_def str_int_def str_def)
  with 1 category_or_retries_exhausted [OF 1, of failing_chat raft_doc "world0 ()"]
  show ?thesis by simp
qed

text \<open>The claim without the bound fails for a tagger with \<open>max_retries = 0\<close>.\<close>

theorem none_is_a_third_outcome:
  "\<not> category_or_exhausted (llama 0) (fst (get_tags failing_chat (llama 0) raft_doc (world0 ())))"
  by (simp add: get_tags_def range_py_def llama_def)

text \<open>
  C4. Every record that \<^verbatim>\<open>get_tags\<close> returns has a title of 1 to 200 characters, a
  description of 10 to 1000 characters and a non-empty tags string.
\<close>

theorem returned_record_within_bounds:
  assumes "fst (get_tags chat self document_content w) = Returns r"
  shows "1 \<le> length (title r) \<and> length (title r) \<le> 200
       \<and> 10 \<le> length (description r) \<and> length (description r) \<le> 1000
       \<and> tags r \<noteq> []"
proof -
  from assms have "get_tags_loop chat self document_content (range_py (max_retries self)) w
               = (Returns r, snd (get_tags chat self document_content w))"
    by (metis get_tags_def prod.collapse)
  from get_tags_loop_Returns [OF this] obtain a w0 w'
    where "attempt_body chat self document_content a w0 = (Inr r, w')" by blast
  from attempt_body_Inr [OF this] obtain d where "snd (TaggingModel_init d) = Inr r" by blast
  then have "within_bounds d" and "r = d\<lparr>category := snd (validate_category (category d))\<rparr>"
    by (auto simp: TaggingModel_init_result accepted_def split: if_splits)
  then show ?thesis by (auto simp: within_bounds_def)
qed

theorem returned_record_within_bounds_witness:
  "fst (get_tags scripted_chat (llama 3) raft_doc (world0 raft_script)) = Returns raft_record
   \<and> 1 \<le> length (title raft_record) \<and> length (title raft_record) \<le> 200
   \<and> 10 \<le> length (description raft_record) \<and> length (description raft_record) \<le> 1000
   \<and> tags raft_record \<noteq> []"
  using raft_run returned_record_within_bounds [OF raft_run] by simp

text \<open>
  C3. With \<open>max_retries \<ge> 1\<close> and a dependency whose every call fails, \<^verbatim>\<open>get_tags\<close> raises
  the terminal error after exactly \<open>max_retries\<close> attempts: the dependency is called
  \<open>max_retries\<close> times (each attempt ends at its first call) and the warnings of
  \<^verbatim>\<open>get_tags\<close> are those of the attempts 1, 2, ..., \<open>max_retries\<close>, one each.
\<close>

theorem retry_bound:
  assumes "1 \<le> max_retries self" and "\<forall>s req. call_fails (fst (chat s req))"
  shows "fst (get_tags chat self document_content w) = Raises (exhausted self)
       \<and> length (exchanges (snd (get_tags chat self document_content w)))
           = length (exchanges w) + nat (max_retries self)
       \<and> attempts_logged (logged (snd (get_tags chat self document_content w)))
           = attempts_logged (logged w) @ [1..max_retries self]"
  using get_tags_loop_all_fail [OF assms(2) ends_at_range_py [OF assms(1)], of document_content w]
  by (auto simp: get_tags_def length_range_py range_py_succ)

theorem retry_bound_witness:
  "1 \<le> max_retries (llama 3) \<and> (\<forall>s req. call_fails (fst (failing_chat s req)))
   \<and> fst (get_tags failing_chat (llama 3) raft_doc (world0 ()))
       = Raises (ValueError (str ''Failed to generate valid tags after 3 attempts''))
   \<and> length (exchanges (snd (get_tags failing_chat (llama 3) raft_doc (world0 ())))) = 3
   \<and> attempts_logged (logged (snd (get_tags failing_chat (llama 3) raft_doc (world0 ()))))
       = [1, 2, 3]"
proof -
  have 1: "1 \<le> max_retries (llama 3)" by (simp add: llama_def)
  have 2: "\<forall>s req. call_fails (fst (failing_chat s req))" by (simp add: failing_chat_def)
  have 3: "exhausted (llama 3) = ValueError (str ''Failed to generate valid tags after 3 attempts'')"
    by (simp add: exhausted_def llama_def str_int_def str_def)
  have 4: "[1..max_retries (llama 3)] = [1, 2, 3]"
    by (simp add: llama_def upto_rec1)
  have 5: "nat (max_retries (llama 3)) = 3" by (simp add: llama_def)
  from retry_bound [OF 1 2, of raft_doc "world0 ()"] 1 2 3 4 5 show ?thesis
    by (simp add: world0_def)
qed


text \<open>
  C10. When \<^verbatim>\<open>get_tags\<close> returns a record, the last four exchanges with the dependency
  are the four calls of the successful attempt, and the title, the tags and the
  description of the record are the stripped answers of the first, third and fourth
  call, as they are. Only the category went through a validator that can change it.
\<close>

theorem returned_fields_are_stripped_answers:
  assumes "fst (get_tags chat self document_content w) = Returns r"
  shows "\<exists>before c1 c2 c3 c4.
           exchanges (snd (get_tags chat self document_content w)) = before @
             [(request self (create_title_prompt document_content), ChatReturns (Some c1)),
              (request self (create_category_prompt document_content (strip c1)),
               ChatReturns (Some c2)),
              (request self (create_tags_prompt document_content (strip c1) (strip c2)),
               ChatReturns (Some c3)),
              (request self
                 (create_description_prompt document_content (strip c1) (strip c2) (strip c3)),
               ChatReturns (Some c4))]
         \<and> title r = strip c1 \<and> tags r = strip c3 \<and> description r = strip c4
         \<and> category r = snd (validate_category (strip c2))"
proof -
  let ?w' = "snd (get_tags chat self document_content w)"
  from assms have "get_tags_loop chat self document_content (range_py (max_retries self)) w
               = (Returns r, ?w')"
    by (metis get_tags_def prod.collapse)
  from get_tags_loop_Returns [OF this] obtain a w0
    where b: "attempt_body chat self document_content a w0 = (Inr r, ?w')" by blast
  from attempt_body_Inr [OF b] obtain c1 c2 c3 c4
    where x: "exchanges ?w' = exchanges w0 @
             [(request self (create_title_prompt document_content), ChatReturns (Some c1)),
              (request self (create_category_prompt document_content (strip c1)),
               ChatReturns (Some c2)),
              (request self (create_tags_prompt document_content (strip c1) (strip c2)),
               ChatReturns (Some c3)),
              (request self
                 (create_description_prompt document_content (strip c1) (strip c2) (strip c3)),
               ChatReturns (Some c4))]"
      and v: "snd (TaggingModel_init \<lparr>title = strip c1, category = strip c2, tags = strip c3,
                                    description = strip c4\<rparr>) = Inr r"
    by blast
  from v have "title r = strip c1 \<and> tags r = strip c3 \<and> description r = strip c4
         \<and> category r = snd (validate_category (strip c2))"
    by (auto simp: TaggingModel_init_result accepted_def split: if_splits)
  with x show ?thesis by blast
qed

theorem returned_fields_are_stripped_answers_witness:
  "fst (get_tags scripted_chat (llama 3) raft_doc (world0 raft_script)) = Returns raft_record
   \<and> (\<exists>before c1 c2 c3 c4.
           exchanges (snd (get_tags scripted_chat (llama 3) raft_doc (world0 raft_script)))
             = before @
             [(request (llama 3) (create_title_prompt raft_doc), ChatReturns (Some c1)),
              (request (llama 3) (create_category_prompt raft_doc (strip c1)),
               ChatReturns (Some c2)),
              (request (llama 3) (create_tags_prompt raft_doc (strip c1) (strip c2)),
               ChatReturns (Some c3)),
              (request (llama 3)
                 (create_description_prompt raft_doc (strip c1) (strip c2) (strip c3)),
               ChatReturns (Some c4))]
         \<and> title raft_record = strip c1 \<and> tags raft_record = strip c3
         \<and> description raft_record = strip c4
         \<and> category raft_record = snd (validate_category (strip c2)))"
  using raft_run returned_fields_are_stripped_answers [OF raft_run] by simp

text \<open>
  C7. An exception that leaves \<^verbatim>\<open>get_tags\<close> is the terminal error, whatever failed inside.
  And an attempt that fails with any exception, when it is not the last attempt, is
  swallowed: \<^verbatim>\<open>get_tags\<close> logs a warning with the exception and goes on with the next
  attempt.
\<close>

theorem only_the_terminal_error_surfaces:
  "(fst (get_tags chat self document_content w) = Raises e \<longrightarrow> e = exhausted self)
   \<and> (fst (attempt_body chat self document_content attempt w0) = Inl e0
        \<and> attempt \<noteq> max_retries self - 1 \<longrightarrow>
      get_tags_loop chat self document_content (attempt # rest) w0
        = get_tags_loop chat self document_content rest
            ((snd (attempt_body chat self document_content attempt w0))
               \<lparr>logged := logged (snd (attempt_body chat self document_content attempt w0))
                            @ [AttemptWarning (attempt + 1) e0]\<rparr>))"
proof (intro conjI impI)
  assume "fst (get_tags chat self document_content w) = Raises e"
  then have "get_tags_loop chat self document_content (range_py (max_retries self)) w
               = (Raises e, snd (get_tags chat self document_content w))"
    by (metis get_tags_def prod.collapse)
  then show "e = exhausted self" by (rule get_tags_loop_Raises)
next
  assume a: "fst (attempt_body chat self document_content attempt w0) = Inl e0
        \<and> attempt \<noteq> max_retries self - 1"
  obtain res w1 where b: "attempt_body chat self document_content attempt w0 = (res, w1)"
    by (cases "attempt_body chat self document_content attempt w0")
  with a show "get_tags_loop chat self document_content (attempt # rest) w0
        = get_tags_loop chat self document_content rest
            ((snd (attempt_body chat self document_content attempt w0))
               \<lparr>logged := logged (snd (attempt_body chat self document_content attempt w0))
                            @ [AttemptWarning (attempt + 1) e0]\<rparr>)"
    by (simp add: Let_def)
qed

theorem only_the_terminal_error_surfaces_witness:
  "fst (get_tags failing_chat (llama 2) raft_doc (world0 ())) = Raises (exhausted (llama 2))
   \<and> exhausted (llama 2) = ValueError (str ''Failed to generate valid tags after 2 attempts'')
   \<and> fst (attempt_body scripted_chat (llama 3) raft_doc 0 (world0 retry_script))
        = Inl (ChatError (str ''timeout''))
   \<and> (0::int) \<noteq> max_retries (llama 3) - 1
   \<and> get_tags_loop scripted_chat (llama 3) raft_doc [0, 1, 2] (world0 retry_script)
        = get_tags_loop scripted_chat (llama 3) raft_doc [1, 2]
            ((snd (attempt_body scripted_chat (llama 3) raft_doc 0 (world0 retry_script)))
               \<lparr>logged := logged (snd (attempt_body scripted_chat (llama 3) raft_doc 0
                                         (world0 retry_script)))
                            @ [AttemptWarning (0 + 1) (ChatError (str ''timeout''))]\<rparr>)
   \<and> fst (get_tags scripted_chat (llama 3) raft_doc (world0 retry_script)) = Returns raft_record"
proof -
  have 1: "fst (get_tags failing_chat (llama 2) raft_doc (world0 ())) = Raises (exhausted (llama 2))"
    by (simp add: get_tags_def range_py_numeral attempt_body_def get_single_field_def
        failing_chat_def llama_def world0_def exhausted_def)
  have 2: "exhausted (llama 2) = ValueError (str ''Failed to generate valid tags after 2 attempts'')"
    by (simp add: exhausted_def llama_def str_int_def str_def)
  have 3: "fst (attempt_body scripted_chat (llama 3) raft_doc 0 (world0 retry_script))
        = Inl (ChatError (str ''timeout''))"
    by (simp add: attempt_body_def get_single_field_def world0_def retry_script_def)
  have 4: "(0::int) \<noteq> max_retries (llama 3) - 1" by (simp add: llama_def)
  from only_the_terminal_error_surfaces
         [of failing_chat "llama 2" raft_doc "world0 ()" "exhausted (llama 2)"]
       only_the_terminal_error_surfaces
         [of scripted_chat "llama 3" raft_doc _ _ 0 "world0 retry_script"
             "ChatError (str ''timeout'')" "[1, 2]"]
       1 2 3 4 retry_run(1)
  show ?thesis by simp
qed


section \<open>The calls of a run\<close>



end
